theory Spec2Isabelle
  imports Complex_Main
begin

section \<open>Python values, exceptions and the market table\<close>

text \<open>
  A float of the program is a real number or NaN, the value the conversion of line 41-45
  gives a missing cell. The model keeps the expressions of the source as they are
  written and leaves IEEE rounding and the infinities out.
\<close>

datatype num = Num real | NaN

text \<open>
  The cells of the state dictionaries of \<^verbatim>\<open>src/main.py\<close> hold Python ints, Python floats
  and strings.
\<close>

datatype pyval = PyInt int | PyFloat real | PyNaN | PyStr string

text \<open>A float as a Python value.\<close>

fun py_float :: "num \<Rightarrow> pyval" where
  "py_float (Num x) = PyFloat x"
| "py_float NaN = PyNaN"

text \<open>A cell of the fetched JSON: a string or null.\<close>

datatype json = JNull | JString string

datatype error =
    KeyError pyval
  | ZeroDivisionError
  | ValueError json
  | AttributeError string
  | IndexError
  | RequestError string

text \<open>
  One row of \<^verbatim>\<open>df\<close> (lines 41-47): the column \<^verbatim>\<open>index\<close> added by
  \<^verbatim>\<open>reset_index()\<close> and the five numeric columns.
\<close>

record market =
  index :: int
  borrowRate :: num
  supplyRate :: num
  totalBorrows :: num
  totalSupply :: num
  exchangeRate :: num

text \<open>
  \<^verbatim>\<open>df_dict = df.to_dict(orient='index')\<close> (line 59): a dictionary from the position of a
  row to the row, kept as an association list so that \<^verbatim>\<open>len(df_dict)\<close> is its length.
\<close>

definition df_dict :: "market list \<Rightarrow> (int \<times> market) list" where
  "df_dict df = zip (map int [0..<length df]) df"

text \<open>
  The parameters a policy receives: one value for each key of \<^verbatim>\<open>system_params\<close>.
\<close>

record params =
  new_df :: "(int \<times> market) list"
  exchange_rate :: string

type_synonym state = "string \<rightharpoonup> pyval"

section \<open>The policy function (lines 67-87)\<close>

text \<open>
  \<^verbatim>\<open>params['new_df'][t]\<close>: a dictionary with int keys, read at a Python value. A float
  that is a whole number hashes and compares like the int; every other key is missing,
  NaN also, which equals no key.
\<close>

fun getitem :: "(int \<times> market) list \<Rightarrow> pyval \<Rightarrow> error + market" where
  "getitem d (PyInt i) = (case map_of d i of None \<Rightarrow> Inl (KeyError (PyInt i)) | Some r \<Rightarrow> Inr r)"
| "getitem d (PyFloat x) =
     (if x = of_int \<lfloor>x\<rfloor>
      then (case map_of d \<lfloor>x\<rfloor> of None \<Rightarrow> Inl (KeyError (PyFloat x)) | Some r \<Rightarrow> Inr r)
      else Inl (KeyError (PyFloat x)))"
| "getitem d PyNaN = Inl (KeyError PyNaN)"
| "getitem d (PyStr s) = Inl (KeyError (PyStr s))"

text \<open>
  Lines 68-69: \<^verbatim>\<open>t = previous_state['timestep']; ts_data = params['new_df'][t]\<close>.
\<close>

definition ts_data_of :: "params \<Rightarrow> state \<Rightarrow> error + market" where
  "ts_data_of params previous_state =
     (case previous_state ''timestep'' of
        None \<Rightarrow> Inl (KeyError (PyStr ''timestep''))
      | Some t \<Rightarrow> getitem (new_df params) t)"

text \<open>
  \<^verbatim>\<open>pd.to_numeric\<close> at a scalar that is already a number returns the scalar.
\<close>

definition to_numeric_scalar :: "num \<Rightarrow> num" where
  "to_numeric_scalar x = x"

text \<open>The quotient and the product of two floats: NaN where an operand is NaN.\<close>

fun float_div :: "num \<Rightarrow> num \<Rightarrow> num" where
  "float_div (Num x) (Num y) = Num (x / y)"
| "float_div a b = NaN"

fun float_mul :: "num \<Rightarrow> num \<Rightarrow> num" where
  "float_mul (Num x) (Num y) = Num (x * y)"
| "float_mul a b = NaN"

text \<open>
  Python's \<^verbatim>\<open>/\<close> on floats raises on a zero divisor, whatever the dividend, before it
  divides.
\<close>

definition truediv :: "num \<Rightarrow> num \<Rightarrow> error + num" where
  "truediv a b = (if b = Num 0 then Inl ZeroDivisionError else Inr (float_div a b))"

text \<open>
  Lines 77-80: the \<^verbatim>\<open>try\<close> block. Only \<^verbatim>\<open>ZeroDivisionError\<close> is caught, and the handler
  binds the int \<^verbatim>\<open>0\<close>.
\<close>

definition utilization_of :: "num \<Rightarrow> num \<Rightarrow> error + pyval" where
  "utilization_of total_borrowed TVL =
     (case truediv (to_numeric_scalar total_borrowed) (to_numeric_scalar TVL) of
        Inr q \<Rightarrow> Inr (py_float (float_mul q (Num 100)))
      | Inl e \<Rightarrow> (if e = ZeroDivisionError then Inr (PyInt 0) else Inl e))"

definition p_rates ::
  "params \<Rightarrow> int \<Rightarrow> state list list \<Rightarrow> state \<Rightarrow> error + (string \<rightharpoonup> pyval)" where
  "p_rates params substep state_history previous_state =
     (case ts_data_of params previous_state of
        Inl e \<Rightarrow> Inl e
      | Inr ts_data \<Rightarrow>
          (let lender_APY = py_float (supplyRate ts_data);
               borrower_rate = py_float (borrowRate ts_data);
               exchange_rate = PyStr (exchange_rate params);
               total_borrowed = totalBorrows ts_data;
               TVL = totalSupply ts_data
           in case utilization_of total_borrowed TVL of
                Inl e \<Rightarrow> Inl e
              | Inr utilization_rate \<Rightarrow>
                  Inr [''lender_APY'' \<mapsto> lender_APY,
                       ''borrower_rate'' \<mapsto> borrower_rate,
                       ''exchange_rate'' \<mapsto> exchange_rate,
                       ''utilization_rate'' \<mapsto> utilization_rate]))"

section \<open>The state update functions (lines 90-104)\<close>

definition policy_get :: "(string \<rightharpoonup> pyval) \<Rightarrow> string \<Rightarrow> error + pyval" where
  "policy_get policy_input k =
     (case policy_input k of None \<Rightarrow> Inl (KeyError (PyStr k)) | Some v \<Rightarrow> Inr v)"

definition s_lender_APY ::
  "params \<Rightarrow> int \<Rightarrow> state list list \<Rightarrow> state \<Rightarrow> (string \<rightharpoonup> pyval) \<Rightarrow> error + (string \<times> pyval)" where
  "s_lender_APY params substep state_history previous_state policy_input =
     (case policy_get policy_input ''lender_APY'' of
        Inl e \<Rightarrow> Inl e | Inr v \<Rightarrow> Inr (''lender_APY'', v))"

definition s_borrower_APY ::
  "params \<Rightarrow> int \<Rightarrow> state list list \<Rightarrow> state \<Rightarrow> (string \<rightharpoonup> pyval) \<Rightarrow> error + (string \<times> pyval)" where
  "s_borrower_APY params substep state_history previous_state policy_input =
     (case policy_get policy_input ''borrower_rate'' of
        Inl e \<Rightarrow> Inl e | Inr v \<Rightarrow> Inr (''borrower_rate'', v))"

definition s_utilization_rate ::
  "params \<Rightarrow> int \<Rightarrow> state list list \<Rightarrow> state \<Rightarrow> (string \<rightharpoonup> pyval) \<Rightarrow> error + (string \<times> pyval)" where
  "s_utilization_rate params substep state_history previous_state policy_input =
     (case policy_get policy_input ''utilization_rate'' of
        Inl e \<Rightarrow> Inl e | Inr v \<Rightarrow> Inr (''utilization_rate'', v))"

definition s_exchange_rate ::
  "params \<Rightarrow> int \<Rightarrow> state list list \<Rightarrow> state \<Rightarrow> (string \<rightharpoonup> pyval) \<Rightarrow> error + (string \<times> pyval)" where
  "s_exchange_rate params substep state_history previous_state policy_input =
     (case policy_get policy_input ''exchange_rate'' of
        Inl e \<Rightarrow> Inl e | Inr v \<Rightarrow> Inr (''exchange_rate'', v))"

section \<open>Initial state, parameters, blocks and configuration (lines 51-64, 107-128)\<close>

definition initial_state :: state where
  "initial_state =
     [''lender_APY'' \<mapsto> PyFloat 0,
      ''borrower_rate'' \<mapsto> PyFloat 0,
      ''utilization_rate'' \<mapsto> PyFloat 0,
      ''exchange_rate'' \<mapsto> PyFloat 0]"

text \<open>\<^verbatim>\<open>system_params\<close>: every key holds the list of the values to sweep over.\<close>

record sys_params =
  M_new_df :: "(int \<times> market) list list"
  M_exchange_rate :: "string list"

definition system_params :: "market list \<Rightarrow> sys_params" where
  "system_params df =
     \<lparr>M_new_df = [df_dict df], M_exchange_rate = [''exchangeRate'']\<rparr>"

type_synonym policy =
  "params \<Rightarrow> int \<Rightarrow> state list list \<Rightarrow> state \<Rightarrow> error + (string \<rightharpoonup> pyval)"

type_synonym state_update =
  "params \<Rightarrow> int \<Rightarrow> state list list \<Rightarrow> state \<Rightarrow> (string \<rightharpoonup> pyval)
     \<Rightarrow> error + (string \<times> pyval)"

text \<open>
  A partial state update block: the one policy under the key \<^verbatim>\<open>policy_rates\<close> and the
  state update functions under \<^verbatim>\<open>variables\<close>, in the order of the dictionary.
\<close>

record block =
  policy_rates :: policy
  variables :: "(string \<times> state_update) list"

definition partial_state_update_blocks :: "block list" where
  "partial_state_update_blocks =
     [\<lparr>policy_rates = p_rates,
       variables =
         [(''s_lender_APY'', s_lender_APY),
          (''s_borrower_APY'', s_borrower_APY),
          (''s_utilization_rate'', s_utilization_rate),
          (''s_exchange_rate'', s_exchange_rate)]\<rparr>]"

record config =
  cfg_T :: "int list"
  cfg_N :: nat
  cfg_M :: sys_params
  cfg_initial_state :: state
  cfg_blocks :: "block list"

text \<open>Line 123: \<^verbatim>\<open>'T': range(len(df_dict))\<close>.\<close>

definition config :: "market list \<Rightarrow> config" where
  "config df =
     \<lparr>cfg_T = map int [0..<length (df_dict df)],
      cfg_N = 1,
      cfg_M = system_params df,
      cfg_initial_state = initial_state,
      cfg_blocks = partial_state_update_blocks\<rparr>"

section \<open>The simulation runner\<close>

text \<open>
  Modelled from the spec: the simulation runner (\<^verbatim>\<open>Experiment\<close>, \<^verbatim>\<open>Executor\<close>,
  \<^verbatim>\<open>execute\<close>, lines 130-138) is a third-party library whose code is not under
  \<^verbatim>\<open>src/\<close>. The spec calls it a discrete-time state update scheduler that invokes the
  field-copy functions once per input row, overwriting the state at every step. The
  model: each key of the parameter dictionary is unwrapped to one value per sweep; a run
  starts from the initial state stamped with timestep 0; for every element of \<^verbatim>\<open>T\<close>, in
  order, every block runs its policy on the previous state, then each state update
  function on the previous state and the policy's result; the pairs returned are written
  over a copy of the previous state, and the copy is stamped with the substep, the
  timestep (the element of \<^verbatim>\<open>T\<close> plus one) and the run. The result lists the stamped
  initial state and then every state produced. The numbering, 0 for the initial record
  and the element of \<^verbatim>\<open>T\<close> plus one for the state a step produces, is the library's;
  with it the policy, which reads the row at the previous state's timestep, meets
  exactly the keys 0 to n - 1 of \<^verbatim>\<open>df_dict\<close> over \<^verbatim>\<open>T = range(n)\<close>.
\<close>

definition sweep :: "sys_params \<Rightarrow> params list" where
  "sweep m = map (\<lambda>(d, e). \<lparr>new_df = d, exchange_rate = e\<rparr>)
                 (zip (M_new_df m) (M_exchange_rate m))"

text \<open>Modelled from the spec: every state update function sees the same previous state; the pairs returned are written in order.\<close>

fun apply_state_updates ::
  "(string \<times> state_update) list \<Rightarrow> params \<Rightarrow> int \<Rightarrow> state list list \<Rightarrow> state
     \<Rightarrow> (string \<rightharpoonup> pyval) \<Rightarrow> state \<Rightarrow> error + state" where
  "apply_state_updates [] ps sub_step sH last_in_obj inp acc = Inr acc"
| "apply_state_updates ((name, f) # fs) ps sub_step sH last_in_obj inp acc =
     (case f ps sub_step sH last_in_obj inp of
        Inl e \<Rightarrow> Inl e
      | Inr (k, v) \<Rightarrow> apply_state_updates fs ps sub_step sH last_in_obj inp (acc(k \<mapsto> v)))"

text \<open>Modelled from the spec: one block at one substep.\<close>

definition partial_state_update ::
  "params \<Rightarrow> block \<Rightarrow> int \<Rightarrow> state list list \<Rightarrow> state \<Rightarrow> int \<Rightarrow> int \<Rightarrow> error + state" where
  "partial_state_update ps b sub_step sH last_in_obj time_step run =
     (case policy_rates b ps sub_step sH last_in_obj of
        Inl e \<Rightarrow> Inl e
      | Inr inp \<Rightarrow>
          (case apply_state_updates (variables b) ps sub_step sH last_in_obj inp last_in_obj of
             Inl e \<Rightarrow> Inl e
           | Inr last_in_copy \<Rightarrow>
               Inr (last_in_copy(''substep'' \<mapsto> PyInt sub_step,
                                 ''timestep'' \<mapsto> PyInt time_step,
                                 ''run'' \<mapsto> PyInt run))))"

text \<open>Modelled from the spec: the blocks of one timestep, substeps counted from 1.\<close>

fun state_update_pipeline ::
  "params \<Rightarrow> block list \<Rightarrow> int \<Rightarrow> state list list \<Rightarrow> state \<Rightarrow> int \<Rightarrow> int
     \<Rightarrow> error + state list" where
  "state_update_pipeline ps [] sub_step sH prev time_step run = Inr []"
| "state_update_pipeline ps (b # bs) sub_step sH prev time_step run =
     (case partial_state_update ps b sub_step sH prev time_step run of
        Inl e \<Rightarrow> Inl e
      | Inr s \<Rightarrow>
          (case state_update_pipeline ps bs (sub_step + 1) sH s time_step run of
             Inl e \<Rightarrow> Inl e
           | Inr rest \<Rightarrow> Inr (s # rest)))"

text \<open>Modelled from the spec: one pass over the blocks for every element of \<^verbatim>\<open>T\<close>.\<close>

fun run_pipeline ::
  "params \<Rightarrow> block list \<Rightarrow> int list \<Rightarrow> state list list \<Rightarrow> state \<Rightarrow> int
     \<Rightarrow> error + state list list" where
  "run_pipeline ps bs [] sH prev run = Inr []"
| "run_pipeline ps bs (x # xs) sH prev run =
     (case state_update_pipeline ps bs 1 sH prev (x + 1) run of
        Inl e \<Rightarrow> Inl e
      | Inr sts \<Rightarrow>
          (case run_pipeline ps bs xs (sH @ [sts]) (if sts = [] then prev else last sts) run of
             Inl e \<Rightarrow> Inl e
           | Inr rest \<Rightarrow> Inr (sts # rest)))"

text \<open>Modelled from the spec: the initial state stamped with timestep 0.\<close>

definition genesis :: "state \<Rightarrow> int \<Rightarrow> int \<Rightarrow> state" where
  "genesis s0 subset_id run =
     s0(''simulation'' \<mapsto> PyInt 0, ''subset'' \<mapsto> PyInt subset_id, ''run'' \<mapsto> PyInt run,
        ''substep'' \<mapsto> PyInt 0, ''timestep'' \<mapsto> PyInt 0)"

text \<open>Modelled from the spec: one run for one parameter set.\<close>

definition simulation :: "config \<Rightarrow> params \<Rightarrow> int \<Rightarrow> int \<Rightarrow> error + state list" where
  "simulation c ps subset_id run =
     (let g = genesis (cfg_initial_state c) subset_id run
      in case run_pipeline ps (cfg_blocks c) (cfg_T c) [[g]] g run of
           Inl e \<Rightarrow> Inl e
         | Inr tss \<Rightarrow> Inr (g # concat tss))"

text \<open>Modelled from the spec: results are concatenated; the first exception ends the execution.\<close>

fun collect :: "(error + 'a list) list \<Rightarrow> error + 'a list" where
  "collect [] = Inr []"
| "collect (r # rs) =
     (case r of
        Inl e \<Rightarrow> Inl e
      | Inr xs \<Rightarrow> (case collect rs of Inl e \<Rightarrow> Inl e | Inr ys \<Rightarrow> Inr (xs @ ys)))"

text \<open>Modelled from the spec: \<^verbatim>\<open>N\<close> runs for every parameter set.\<close>

definition execute :: "config \<Rightarrow> error + state list" where
  "execute c =
     collect (map (\<lambda>(subset_id, ps).
                collect (map (\<lambda>run. simulation c ps (int subset_id) (int run)) [1..<Suc (cfg_N c)]))
              (enumerate 0 (sweep (cfg_M c))))"

section \<open>Fetching and reshaping (lines 36-47)\<close>

text \<open>
  One element of \<^verbatim>\<open>graph_data['markets']\<close>: the five fields of the query, each a JSON
  string or null (the type \<open>json\<close>).
\<close>

record raw_market =
  raw_borrowRate :: json
  raw_supplyRate :: json
  raw_totalBorrows :: json
  raw_totalSupply :: json
  raw_exchangeRate :: json

text \<open>
  \<^verbatim>\<open>pd.to_numeric\<close> at one cell of a column, with its default \<^verbatim>\<open>errors='raise'\<close>. The
  library reads a missing cell, null or the empty string, as NaN and does not raise. Its
  reading of any other string is the parameter \<open>parse\<close>: a number, NaN, or \<open>None\<close>
  where it raises.
\<close>

fun read_cell :: "(string \<Rightarrow> num option) \<Rightarrow> json \<Rightarrow> num option" where
  "read_cell parse JNull = Some NaN"
| "read_cell parse (JString s) = (if s = [] then Some NaN else parse s)"

text \<open>\<^verbatim>\<open>pd.to_numeric\<close> at a column: the first cell that cannot be read raises.\<close>

fun to_numeric :: "(string \<Rightarrow> num option) \<Rightarrow> json list \<Rightarrow> error + num list" where
  "to_numeric parse [] = Inr []"
| "to_numeric parse (c # cs) =
     (case read_cell parse c of
        None \<Rightarrow> Inl (ValueError c)
      | Some x \<Rightarrow> (case to_numeric parse cs of Inl e \<Rightarrow> Inl e | Inr xs \<Rightarrow> Inr (x # xs)))"

text \<open>
  Lines 40-47. A frame built from no rows has no columns, so that reading the first
  column raises. The five \<^verbatim>\<open>assign\<close> calls run in the order of the source.
\<close>

definition reshape :: "(string \<Rightarrow> num option) \<Rightarrow> raw_market list \<Rightarrow> error + market list" where
  "reshape parse raw_df =
     (if raw_df = [] then Inl (AttributeError ''totalBorrows'')
      else
        (case to_numeric parse (map raw_totalBorrows raw_df) of Inl e \<Rightarrow> Inl e | Inr tb \<Rightarrow>
        (case to_numeric parse (map raw_totalSupply raw_df) of Inl e \<Rightarrow> Inl e | Inr ts \<Rightarrow>
        (case to_numeric parse (map raw_borrowRate raw_df) of Inl e \<Rightarrow> Inl e | Inr br \<Rightarrow>
        (case to_numeric parse (map raw_supplyRate raw_df) of Inl e \<Rightarrow> Inl e | Inr sr \<Rightarrow>
        (case to_numeric parse (map raw_exchangeRate raw_df) of Inl e \<Rightarrow> Inl e | Inr er \<Rightarrow>
          Inr (map (\<lambda>i. \<lparr>index = int i, borrowRate = br ! i, supplyRate = sr ! i,
                           totalBorrows = tb ! i, totalSupply = ts ! i,
                           exchangeRate = er ! i\<rparr>)
                   [0..<length raw_df])))))))"

text \<open>
  Lines 36-138 as one computation. \<open>fetched\<close> is what lines 36-37 and 40 give: the
  exception of the request or of the decoding, or the list of markets.
\<close>

definition main :: "(string \<Rightarrow> num option) \<Rightarrow> error + raw_market list \<Rightarrow> error + state list" where
  "main parse fetched =
     (case fetched of
        Inl e \<Rightarrow> Inl e
      | Inr raw_df \<Rightarrow>
          (case reshape parse raw_df of
             Inl e \<Rightarrow> Inl e
           | Inr df \<Rightarrow> execute (config df)))"

section \<open>The live chart (lines 179-185)\<close>

datatype ui_event = AddRows state | Sleep real

text \<open>\<^verbatim>\<open>result.iloc[i, :]\<close> raises outside the table.\<close>

definition iloc :: "state list \<Rightarrow> nat \<Rightarrow> error + state" where
  "iloc result i = (if i < length result then Inr (result ! i) else Inl IndexError)"

text \<open>
  The body of the loop of lines 182-185 for the indices \<open>is\<close>, appending what it does to
  the events so far.
\<close>

fun chart_loop :: "state list \<Rightarrow> nat list \<Rightarrow> ui_event list \<Rightarrow> error + ui_event list" where
  "chart_loop result [] events = Inr events"
| "chart_loop result (i # is) events =
     (case iloc result i of
        Inl e \<Rightarrow> Inl e
      | Inr new_rows \<Rightarrow> chart_loop result is (events @ [AddRows new_rows, Sleep (5 / 100)]))"

definition live_chart :: "bool \<Rightarrow> state list \<Rightarrow> error + ui_event list" where
  "live_chart run_simulation result =
     (if run_simulation then chart_loop result [0..<length result] [] else Inr [])"

section \<open>Closed forms used by the statements\<close>

text \<open>
  What the spec says a step computes from a row: the percentage borrowed over supplied,
  and 0 where nothing is supplied.
\<close>

definition utilization_value :: "market \<Rightarrow> pyval" where
  "utilization_value row =
     (if totalSupply row = Num 0 then PyInt 0
      else py_float (float_mul (float_div (totalBorrows row) (totalSupply row)) (Num 100)))"

text \<open>
  The dictionary \<open>g\<close> with the seven keys written that a step of the block writes.
\<close>

definition state_after :: "state \<Rightarrow> string \<Rightarrow> market \<Rightarrow> int \<Rightarrow> int \<Rightarrow> int \<Rightarrow> state" where
  "state_after g e row sub_step time_step run =
     g(''lender_APY'' \<mapsto> py_float (supplyRate row),
       ''borrower_rate'' \<mapsto> py_float (borrowRate row),
       ''utilization_rate'' \<mapsto> utilization_value row,
       ''exchange_rate'' \<mapsto> PyStr e,
       ''substep'' \<mapsto> PyInt sub_step,
       ''timestep'' \<mapsto> PyInt time_step,
       ''run'' \<mapsto> PyInt run)"

text \<open>A one-row and a two-row table for the concrete evaluations.\<close>

definition row_a :: market where
  "row_a = \<lparr>index = 0, borrowRate = Num (3 / 100), supplyRate = Num (1 / 100),
             totalBorrows = Num 30, totalSupply = Num 40, exchangeRate = Num (2 / 100)\<rparr>"

definition row_b :: market where
  "row_b = \<lparr>index = 1, borrowRate = Num (5 / 100), supplyRate = Num (4 / 100),
             totalBorrows = Num 7, totalSupply = Num 0, exchangeRate = Num (1 / 4)\<rparr>"

definition demo_params :: params where
  "demo_params = \<lparr>new_df = df_dict [row_a, row_b], exchange_rate = ''exchangeRate''\<rparr>"

text \<open>
  A reading of strings for the concrete evaluations of the reshape step, and three raw
  markets: one whose fields all read as numbers, one whose supply rate cannot be read,
  one whose supply rate is the empty string and whose exchange rate is null.
\<close>

definition demo_parse :: "string \<Rightarrow> num option" where
  "demo_parse s =
     (if s = ''0.5'' then Some (Num (1 / 2))
      else if s = ''30'' then Some (Num 30)
      else if s = ''0'' then Some (Num 0)
      else None)"

definition raw_a :: raw_market where
  "raw_a = \<lparr>raw_borrowRate = JString ''0.5'', raw_supplyRate = JString ''0.5'',
            raw_totalBorrows = JString ''30'', raw_totalSupply = JString ''0'',
            raw_exchangeRate = JString ''0.5''\<rparr>"

definition raw_bad :: raw_market where
  "raw_bad = \<lparr>raw_borrowRate = JString ''0.5'', raw_supplyRate = JString ''n/a'',
            raw_totalBorrows = JString ''30'', raw_totalSupply = JString ''0'',
            raw_exchangeRate = JString ''0.5''\<rparr>"

definition raw_missing :: raw_market where
  "raw_missing = \<lparr>raw_borrowRate = JString ''0.5'', raw_supplyRate = JString [],
            raw_totalBorrows = JString ''30'', raw_totalSupply = JString ''0'',
            raw_exchangeRate = JNull\<rparr>"

section \<open>The simulation in closed form\<close>

lemma map_of_df_dict:
  "map_of (df_dict df) k = (if 0 \<le> k \<and> k < int (length df) then Some (df ! nat k) else None)"
proof (cases "0 \<le> k \<and> k < int (length df)")
  case True
  then have i: "nat k < length df" by (simp add: nat_less_iff)
  have d: "distinct (map int [0..<length df])"
    by (simp add: distinct_map inj_on_def)
  have "map_of (zip (map int [0..<length df]) df) (map int [0..<length df] ! nat k) = Some (df ! nat k)"
    using i d by (intro map_of_zip_nth) simp_all
  with True i show ?thesis by (simp add: df_dict_def)
next
  case False
  then have "k \<notin> set (map int [0..<length df])" by auto
  then have "map_of (df_dict df) k = None"
    by (simp add: df_dict_def)
  with False show ?thesis by auto
qed

lemma ts_data_of_row:
  assumes "prev ''timestep'' = Some (PyInt (int i))" and "i < length df"
  shows "ts_data_of \<lparr>new_df = df_dict df, exchange_rate = e\<rparr> prev = Inr (df ! i)"
  using assms by (simp add: ts_data_of_def map_of_df_dict)

lemma p_rates_row:
  assumes "ts_data_of ps prev = Inr row"
  shows "p_rates ps sub_step sH prev =
           Inr [''lender_APY'' \<mapsto> py_float (supplyRate row),
                ''borrower_rate'' \<mapsto> py_float (borrowRate row),
                ''exchange_rate'' \<mapsto> PyStr (exchange_rate ps),
                ''utilization_rate'' \<mapsto> utilization_value row]"
  using assms
  by (simp add: p_rates_def utilization_of_def truediv_def to_numeric_scalar_def
      utilization_value_def Let_def)

lemma block_step:
  assumes "ts_data_of ps prev = Inr row"
  shows "state_update_pipeline ps partial_state_update_blocks sub_step sH prev time_step run =
           Inr [state_after prev (exchange_rate ps) row sub_step time_step run]"
proof -
  have "partial_state_update ps (hd partial_state_update_blocks) sub_step sH prev time_step run =
          Inr (state_after prev (exchange_rate ps) row sub_step time_step run)"
    unfolding partial_state_update_def partial_state_update_blocks_def
    by (simp add: p_rates_row [OF assms] s_lender_APY_def s_borrower_APY_def
        s_utilization_rate_def s_exchange_rate_def policy_get_def state_after_def)
  then show ?thesis
    by (simp add: partial_state_update_blocks_def)
qed

lemma state_after_again:
  "state_after (state_after g e r s t n) e' r' s' t' n' = state_after g e' r' s' t' n'"
  by (rule ext) (simp add: state_after_def)

lemma state_after_timestep: "state_after g e r s t n ''timestep'' = Some (PyInt t)"
  by (simp add: state_after_def)

lemma run_pipeline_rows:
  assumes "prev ''timestep'' = Some (PyInt (int k))" and "n \<le> length df"
    and "\<And>r s t u. state_after prev e r s t u = state_after g e r s t u"
  shows "run_pipeline \<lparr>new_df = df_dict df, exchange_rate = e\<rparr> partial_state_update_blocks
           (map int [k..<n]) sH prev run =
         Inr (map (\<lambda>i. [state_after g e (df ! i) 1 (int i + 1) run]) [k..<n])"
  using assms
proof (induction "n - k" arbitrary: k prev sH)
  case 0
  then show ?case by simp
next
  case (Suc d)
  then have kn: "k < n" by simp
  let ?ps = "\<lparr>new_df = df_dict df, exchange_rate = e\<rparr>"
  let ?s = "state_after g e (df ! k) 1 (int k + 1) run"
  have row: "ts_data_of ?ps prev = Inr (df ! k)"
    using Suc.prems kn by (intro ts_data_of_row) simp_all
  have step: "state_update_pipeline ?ps partial_state_update_blocks 1 sH prev (int k + 1) run = Inr [?s]"
    using block_step [OF row] Suc.prems(3) by simp
  have ts: "?s ''timestep'' = Some (PyInt (int (Suc k)))"
    by (simp add: state_after_timestep add.commute)
  have rest: "run_pipeline ?ps partial_state_update_blocks (map int [Suc k..<n]) (sH @ [[?s]]) ?s run =
        Inr (map (\<lambda>i. [state_after g e (df ! i) 1 (int i + 1) run]) [Suc k..<n])"
    using Suc.hyps(2) Suc.prems(2) by (intro Suc.hyps(1) ts) (simp_all add: state_after_again)
  show ?case
    using kn step rest by (simp add: upt_conv_Cons)
qed

lemma execute_config:
  "execute (config df) =
     Inr (genesis initial_state 0 1 #
          map (\<lambda>i. state_after (genesis initial_state 0 1) ''exchangeRate'' (df ! i) 1 (int i + 1) 1)
              [0..<length df])"
proof -
  let ?g = "genesis initial_state 0 1"
  have g0: "?g ''timestep'' = Some (PyInt (int 0))"
    by (simp add: genesis_def)
  have len: "length (df_dict df) = length df"
    by (simp add: df_dict_def)
  have "run_pipeline \<lparr>new_df = df_dict df, exchange_rate = ''exchangeRate''\<rparr>
          partial_state_update_blocks (map int [0..<length df]) [[?g]] ?g 1 =
        Inr (map (\<lambda>i. [state_after ?g ''exchangeRate'' (df ! i) 1 (int i + 1) 1]) [0..<length df])"
    using g0 by (intro run_pipeline_rows [where k = 0 and prev = "?g" and g = "?g"]) simp_all
  then have "simulation (config df) \<lparr>new_df = df_dict df, exchange_rate = ''exchangeRate''\<rparr> 0 1 =
      Inr (?g # map (\<lambda>i. state_after ?g ''exchangeRate'' (df ! i) 1 (int i + 1) 1) [0..<length df])"
    by (simp add: simulation_def config_def len Let_def comp_def)
  then show ?thesis
    by (simp add: execute_def sweep_def config_def system_params_def)
qed

lemma result_nth:
  "k \<le> n \<Longrightarrow> (g # map f [0..<n]) ! k = (if k = 0 then g else f (k - 1))"
  by (cases k) simp_all

lemma demo_ts0: "ts_data_of demo_params [''timestep'' \<mapsto> PyInt 0] = Inr row_a"
  by (simp add: ts_data_of_def demo_params_def df_dict_def)

lemma demo_ts1: "ts_data_of demo_params [''timestep'' \<mapsto> PyInt 1] = Inr row_b"
  by (simp add: ts_data_of_def demo_params_def df_dict_def)

section \<open>The policy and the state it produces\<close>

text \<open>
  C2: for every row the policy reads, the \<^verbatim>\<open>utilization_rate\<close> it returns is
  \<^verbatim>\<open>totalBorrows / totalSupply * 100\<close>, and 0 when the row's \<^verbatim>\<open>totalSupply\<close> is 0: as
  the float expression for any cells, and as the real number \<open>a / b * 100\<close> for the
  numbers \<open>a\<close> and \<open>b\<close>.
\<close>

theorem p_rates_utilization:
  assumes "ts_data_of ps previous_state = Inr row"
  shows "\<exists>out. p_rates ps substep state_history previous_state = Inr out \<and>
           out ''utilization_rate'' =
             Some (if totalSupply row = Num 0 then PyInt 0
                   else py_float (float_mul (float_div (totalBorrows row) (totalSupply row))
                                            (Num 100))) \<and>
           (\<forall>a b. totalBorrows row = Num a \<and> totalSupply row = Num b \<longrightarrow>
              out ''utilization_rate'' =
                Some (if b = 0 then PyInt 0 else PyFloat (a / b * 100)))"
  using assms
  by (simp add: p_rates_def utilization_of_def truediv_def to_numeric_scalar_def Let_def)

theorem p_rates_utilization_witness:
  "ts_data_of demo_params [''timestep'' \<mapsto> PyInt 0] = Inr row_a \<and>
   ts_data_of demo_params [''timestep'' \<mapsto> PyInt 1] = Inr row_b \<and>
   totalBorrows row_a = Num 30 \<and> totalSupply row_a = Num 40 \<and>
   totalBorrows row_b = Num 7 \<and> totalSupply row_b = Num 0 \<and>
   (\<exists>out. p_rates demo_params 1 [] [''timestep'' \<mapsto> PyInt 0] = Inr out \<and>
       out ''utilization_rate'' = Some (PyFloat 75)) \<and>
   (\<exists>out. p_rates demo_params 1 [] [''timestep'' \<mapsto> PyInt 1] = Inr out \<and>
       out ''utilization_rate'' = Some (PyInt 0))"
proof -
  have a: "totalBorrows row_a = Num 30 \<and> totalSupply row_a = Num 40"
    by (simp add: row_a_def)
  have b: "totalBorrows row_b = Num 7 \<and> totalSupply row_b = Num 0"
    by (simp add: row_b_def)
  from p_rates_utilization [OF demo_ts0, of 1 "[]"] a
  have "\<exists>out. p_rates demo_params 1 [] [''timestep'' \<mapsto> PyInt 0] = Inr out \<and>
       out ''utilization_rate'' = Some (PyFloat 75)"
    by auto
  moreover from p_rates_utilization [OF demo_ts1, of 1 "[]"] b
  have "\<exists>out. p_rates demo_params 1 [] [''timestep'' \<mapsto> PyInt 1] = Inr out \<and>
       out ''utilization_rate'' = Some (PyInt 0)"
    by auto
  ultimately show ?thesis
    using a b demo_ts0 demo_ts1 by simp
qed

text \<open>
  C1: the claim promises that the state's \<^verbatim>\<open>exchange_rate\<close> is the \<^verbatim>\<open>exchangeRate\<close> of
  the row consumed. On the table \<open>[row_a, row_b]\<close>, from a previous state of timestep 0,
  the policy reads \<open>row_a\<close> and returns the string \<^verbatim>\<open>'exchangeRate'\<close> under that key;
  \<^verbatim>\<open>s_exchange_rate\<close> hands the string on as the new value of the state field, not the
  row's 0.02.
\<close>

theorem exchange_rate_not_copied:
  "ts_data_of demo_params [''timestep'' \<mapsto> PyInt 0] = Inr row_a \<and>
   p_rates demo_params 1 [] [''timestep'' \<mapsto> PyInt 0] =
     Inr [''lender_APY'' \<mapsto> PyFloat (1 / 100), ''borrower_rate'' \<mapsto> PyFloat (3 / 100),
          ''exchange_rate'' \<mapsto> PyStr ''exchangeRate'', ''utilization_rate'' \<mapsto> PyFloat 75] \<and>
   s_exchange_rate demo_params 1 [] [''timestep'' \<mapsto> PyInt 0]
       [''lender_APY'' \<mapsto> PyFloat (1 / 100), ''borrower_rate'' \<mapsto> PyFloat (3 / 100),
        ''exchange_rate'' \<mapsto> PyStr ''exchangeRate'', ''utilization_rate'' \<mapsto> PyFloat 75] =
     Inr (''exchange_rate'', PyStr ''exchangeRate'') \<and>
   exchangeRate row_a = Num (2 / 100) \<and>
   PyStr ''exchangeRate'' \<noteq> py_float (exchangeRate row_a)"
proof -
  have "p_rates demo_params 1 [] [''timestep'' \<mapsto> PyInt 0] =
     Inr [''lender_APY'' \<mapsto> PyFloat (1 / 100), ''borrower_rate'' \<mapsto> PyFloat (3 / 100),
          ''exchange_rate'' \<mapsto> PyStr ''exchangeRate'', ''utilization_rate'' \<mapsto> PyFloat 75]"
    using p_rates_row [OF demo_ts0, of 1 "[]"]
    by (simp add: demo_params_def utilization_value_def row_a_def)
  then show ?thesis
    by (simp add: demo_ts0 s_exchange_rate_def policy_get_def row_a_def)
qed

text \<open>
  C8: at every step t from 1 to the number of rows, the state's \<^verbatim>\<open>exchange_rate\<close> is
  the constant string \<^verbatim>\<open>'exchangeRate'\<close> of \<^verbatim>\<open>system_params\<close>, whatever the table holds.
\<close>

theorem exchange_rate_is_constant_string:
  "M_exchange_rate (system_params df) = [''exchangeRate''] \<and>
   (\<exists>res. execute (config df) = Inr res \<and> length res = length df + 1 \<and>
      (\<forall>t. 1 \<le> t \<and> t \<le> length df \<longrightarrow>
         (res ! t) ''exchange_rate'' = Some (PyStr ''exchangeRate'')))"
proof -
  let ?g = "genesis initial_state 0 1"
  let ?f = "\<lambda>i. state_after ?g ''exchangeRate'' (df ! i) 1 (int i + 1) 1"
  let ?res = "?g # map ?f [0..<length df]"
  have nth: "?res ! t = ?f (t - 1)" if "1 \<le> t" and "t \<le> length df" for t
    using that result_nth [of t "length df" ?g ?f] by simp
  have "(?res ! t) ''exchange_rate'' = Some (PyStr ''exchangeRate'')"
    if "1 \<le> t" and "t \<le> length df" for t
    unfolding nth [OF that] by (simp add: state_after_def)
  then have "\<forall>t. 1 \<le> t \<and> t \<le> length df \<longrightarrow>
         (?res ! t) ''exchange_rate'' = Some (PyStr ''exchangeRate'')"
    by blast
  moreover have "execute (config df) = Inr ?res"
    by (rule execute_config)
  moreover have "length ?res = length df + 1"
    by simp
  moreover have "M_exchange_rate (system_params df) = [''exchangeRate'']"
    by (simp add: system_params_def)
  ultimately show ?thesis
    by blast
qed

theorem exchange_rate_is_constant_string_witness:
  "(1::nat) \<le> 2 \<and> (2::nat) \<le> length [row_a, row_b] \<and>
   (\<exists>res. execute (config [row_a, row_b]) = Inr res \<and>
      (res ! 1) ''exchange_rate'' = Some (PyStr ''exchangeRate'') \<and>
      (res ! 2) ''exchange_rate'' = Some (PyStr ''exchangeRate''))"
proof -
  from exchange_rate_is_constant_string [of "[row_a, row_b]"]
  obtain res where r: "execute (config [row_a, row_b]) = Inr res"
    and a: "\<forall>t. 1 \<le> t \<and> t \<le> length [row_a, row_b] \<longrightarrow>
         (res ! t) ''exchange_rate'' = Some (PyStr ''exchangeRate'')"
    by blast
  from a have "(res ! 1) ''exchange_rate'' = Some (PyStr ''exchangeRate'')" by simp
  moreover from a have "(res ! 2) ''exchange_rate'' = Some (PyStr ''exchangeRate'')" by simp
  ultimately show ?thesis using r by simp
qed

text \<open>
  C9: for two previous states with the same \<^verbatim>\<open>timestep\<close>, the policy returns the same
  result and each of the four state update functions returns the same pair: nothing of
  the previous state but its timestep is read.
\<close>

theorem update_ignores_previous_rates:
  assumes "s1 ''timestep'' = s2 ''timestep''"
  shows "p_rates ps substep h1 s1 = p_rates ps substep h2 s2 \<and>
         s_lender_APY ps substep h1 s1 inp = s_lender_APY ps substep h2 s2 inp \<and>
         s_borrower_APY ps substep h1 s1 inp = s_borrower_APY ps substep h2 s2 inp \<and>
         s_utilization_rate ps substep h1 s1 inp = s_utilization_rate ps substep h2 s2 inp \<and>
         s_exchange_rate ps substep h1 s1 inp = s_exchange_rate ps substep h2 s2 inp"
  using assms
  by (simp add: p_rates_def ts_data_of_def s_lender_APY_def s_borrower_APY_def
      s_utilization_rate_def s_exchange_rate_def)

theorem update_ignores_previous_rates_witness:
  "[''timestep'' \<mapsto> PyInt 0, ''lender_APY'' \<mapsto> PyFloat 0] ''timestep'' =
     [''timestep'' \<mapsto> PyInt 0, ''lender_APY'' \<mapsto> PyFloat 9] ''timestep'' \<and>
   [''timestep'' \<mapsto> PyInt 0, ''lender_APY'' \<mapsto> PyFloat 0] ''lender_APY'' \<noteq>
     [''timestep'' \<mapsto> PyInt 0, ''lender_APY'' \<mapsto> PyFloat 9] ''lender_APY'' \<and>
   p_rates demo_params 1 [] [''timestep'' \<mapsto> PyInt 0, ''lender_APY'' \<mapsto> PyFloat 0] =
     p_rates demo_params 1 [] [''timestep'' \<mapsto> PyInt 0, ''lender_APY'' \<mapsto> PyFloat 9]"
  using update_ignores_previous_rates
    [of "[''timestep'' \<mapsto> PyInt 0, ''lender_APY'' \<mapsto> PyFloat 0]"
        "[''timestep'' \<mapsto> PyInt 0, ''lender_APY'' \<mapsto> PyFloat 9]" demo_params 1 "[]" "[]" Map.empty]
  by simp

section \<open>Steps of the simulation\<close>

text \<open>
  C3: for a table of n rows, \<^verbatim>\<open>T\<close> has n elements and the simulation produces, after
  the initial record, exactly n states, with the timesteps 1 to n.
\<close>

theorem simulation_step_count:
  "length (cfg_T (config df)) = length df \<and>
   (\<exists>sts. execute (config df) = Inr (genesis initial_state 0 1 # sts) \<and>
      length sts = length df \<and>
      map (\<lambda>s. s ''timestep'') sts = map (\<lambda>k. Some (PyInt (int k + 1))) [0..<length df])"
proof -
  have "length (cfg_T (config df)) = length df"
    by (simp add: config_def df_dict_def)
  then show ?thesis
    by (simp add: execute_config state_after_timestep comp_def)
qed

text \<open>
  C4, as stated: the step that produces the state of timestep t reads the row of index t.
  On the table \<open>[row_a, row_b]\<close> the step that produces the state of timestep 1 reads
  the row of index 0, which is not the row of index 1.
\<close>

theorem policy_reads_current_step_counterexample:
  "state_update_pipeline demo_params partial_state_update_blocks 1
      [[genesis initial_state 0 1]] (genesis initial_state 0 1) 1 1 =
     Inr [state_after (genesis initial_state 0 1) ''exchangeRate'' row_a 1 1 1] \<and>
   state_after (genesis initial_state 0 1) ''exchangeRate'' row_a 1 1 1 ''timestep'' =
     Some (PyInt 1) \<and>
   ts_data_of demo_params (genesis initial_state 0 1) \<noteq> getitem (new_df demo_params) (PyInt 1) \<and>
   ts_data_of demo_params (genesis initial_state 0 1) = getitem (new_df demo_params) (PyInt 0)"
proof -
  have row: "ts_data_of demo_params (genesis initial_state 0 1) = Inr row_a"
    by (simp add: ts_data_of_def demo_params_def df_dict_def genesis_def)
  have e: "exchange_rate demo_params = ''exchangeRate''"
    by (simp add: demo_params_def)
  have "state_update_pipeline demo_params partial_state_update_blocks 1
      [[genesis initial_state 0 1]] (genesis initial_state 0 1) 1 1 =
     Inr [state_after (genesis initial_state 0 1) ''exchangeRate'' row_a 1 1 1]"
    using block_step [OF row, of 1 "[[genesis initial_state 0 1]]" 1 1] by (simp only: e)
  moreover have "getitem (new_df demo_params) (PyInt 1) = Inr row_b"
    by (simp add: demo_params_def df_dict_def)
  moreover have "getitem (new_df demo_params) (PyInt 0) = Inr row_a"
    by (simp add: demo_params_def df_dict_def)
  moreover have "row_a \<noteq> row_b"
    by (simp add: row_a_def row_b_def)
  ultimately show ?thesis
    using row by (simp add: state_after_timestep)
qed

text \<open>
  C4, amended: the policy reads the row whose index is the timestep of the previous
  state, one less than the timestep of the state the step produces. For every k below
  the number of rows, record k of the result has timestep k and record k + 1 has timestep
  k + 1; the policy, called on record k, reads row k and returns the rates of row k; and
  record k + 1, which the step makes from record k, holds the rates of row k.
\<close>

theorem policy_reads_previous_timestep:
  assumes "k < length df"
  shows "\<exists>res. execute (config df) = Inr res \<and>
     (res ! k) ''timestep'' = Some (PyInt (int k)) \<and>
     ts_data_of \<lparr>new_df = df_dict df, exchange_rate = ''exchangeRate''\<rparr> (res ! k) = Inr (df ! k) \<and>
     p_rates \<lparr>new_df = df_dict df, exchange_rate = ''exchangeRate''\<rparr> 1 sH (res ! k) =
       Inr [''lender_APY'' \<mapsto> py_float (supplyRate (df ! k)),
            ''borrower_rate'' \<mapsto> py_float (borrowRate (df ! k)),
            ''exchange_rate'' \<mapsto> PyStr ''exchangeRate'',
            ''utilization_rate'' \<mapsto> utilization_value (df ! k)] \<and>
     state_update_pipeline \<lparr>new_df = df_dict df, exchange_rate = ''exchangeRate''\<rparr>
       partial_state_update_blocks 1 sH (res ! k) (int k + 1) 1 = Inr [res ! Suc k] \<and>
     (res ! Suc k) ''timestep'' = Some (PyInt (int k + 1)) \<and>
     (res ! Suc k) ''lender_APY'' = Some (py_float (supplyRate (df ! k))) \<and>
     (res ! Suc k) ''borrower_rate'' = Some (py_float (borrowRate (df ! k))) \<and>
     (res ! Suc k) ''utilization_rate'' = Some (utilization_value (df ! k))"
proof -
  let ?g = "genesis initial_state 0 1"
  let ?f = "\<lambda>i. state_after ?g ''exchangeRate'' (df ! i) 1 (int i + 1) 1"
  let ?res = "?g # map ?f [0..<length df]"
  let ?ps = "\<lparr>new_df = df_dict df, exchange_rate = ''exchangeRate''\<rparr>"
  have prev: "?res ! k = (if k = 0 then ?g else ?f (k - 1))"
    using assms by (intro result_nth) simp
  have nxt: "?res ! Suc k = ?f k"
    using assms by simp
  have ts: "(?res ! k) ''timestep'' = Some (PyInt (int k))"
    unfolding prev by (cases k) (simp_all add: genesis_def state_after_timestep add.commute)
  have row: "ts_data_of ?ps (?res ! k) = Inr (df ! k)"
    using ts assms by (rule ts_data_of_row)
  have pol: "p_rates ?ps 1 sH (?res ! k) =
       Inr [''lender_APY'' \<mapsto> py_float (supplyRate (df ! k)),
            ''borrower_rate'' \<mapsto> py_float (borrowRate (df ! k)),
            ''exchange_rate'' \<mapsto> PyStr ''exchangeRate'',
            ''utilization_rate'' \<mapsto> utilization_value (df ! k)]"
    using p_rates_row [OF row, of 1 sH] by simp
  have same: "state_after (?res ! k) ''exchangeRate'' (df ! k) 1 (int k + 1) 1 = ?f k"
    unfolding prev by (simp add: state_after_again)
  have step: "state_update_pipeline ?ps partial_state_update_blocks 1 sH (?res ! k) (int k + 1) 1 =
      Inr [?res ! Suc k]"
    using block_step [OF row, of 1 sH "int k + 1" 1] same nxt by simp
  have t': "(?res ! Suc k) ''timestep'' = Some (PyInt (int k + 1))"
    unfolding nxt by (simp add: state_after_timestep)
  have l: "(?res ! Suc k) ''lender_APY'' = Some (py_float (supplyRate (df ! k)))"
    unfolding nxt by (simp add: state_after_def)
  have b: "(?res ! Suc k) ''borrower_rate'' = Some (py_float (borrowRate (df ! k)))"
    unfolding nxt by (simp add: state_after_def)
  have u: "(?res ! Suc k) ''utilization_rate'' = Some (utilization_value (df ! k))"
    unfolding nxt by (simp add: state_after_def)
  from ts row pol step t' l b u show ?thesis
    using execute_config [of df] by blast
qed

theorem policy_reads_previous_timestep_witness:
  "(1::nat) < length [row_a, row_b] \<and>
   (\<exists>res. execute (config [row_a, row_b]) = Inr res \<and>
     (res ! 1) ''timestep'' = Some (PyInt 1) \<and>
     ts_data_of demo_params (res ! 1) = Inr row_b \<and>
     (res ! 2) ''timestep'' = Some (PyInt 2) \<and>
     (res ! 2) ''lender_APY'' = Some (PyFloat (4 / 100)) \<and>
     (res ! 2) ''borrower_rate'' = Some (PyFloat (5 / 100)) \<and>
     (res ! 2) ''utilization_rate'' = Some (PyInt 0) \<and>
     (res ! 2) ''lender_APY'' \<noteq> Some (py_float (supplyRate row_a)))"
proof -
  from policy_reads_previous_timestep [of 1 "[row_a, row_b]" "[]"]
  obtain res where r: "execute (config [row_a, row_b]) = Inr res"
    and t1: "(res ! 1) ''timestep'' = Some (PyInt (int 1))"
    and d: "ts_data_of \<lparr>new_df = df_dict [row_a, row_b], exchange_rate = ''exchangeRate''\<rparr>
              (res ! 1) = Inr ([row_a, row_b] ! 1)"
    and t2: "(res ! Suc 1) ''timestep'' = Some (PyInt (int 1 + 1))"
    and l: "(res ! Suc 1) ''lender_APY'' = Some (py_float (supplyRate ([row_a, row_b] ! 1)))"
    and b: "(res ! Suc 1) ''borrower_rate'' = Some (py_float (borrowRate ([row_a, row_b] ! 1)))"
    and u: "(res ! Suc 1) ''utilization_rate'' = Some (utilization_value ([row_a, row_b] ! 1))"
    by auto
  have two: "Suc 1 = (2::nat)" by simp
  from t1 have "(res ! 1) ''timestep'' = Some (PyInt 1)" by simp
  moreover from d have "ts_data_of demo_params (res ! 1) = Inr row_b"
    by (simp add: demo_params_def)
  moreover from t2 have "(res ! 2) ''timestep'' = Some (PyInt 2)"
    unfolding two by simp
  moreover from l have l2: "(res ! 2) ''lender_APY'' = Some (PyFloat (4 / 100))"
    unfolding two by (simp add: row_b_def)
  moreover from b have "(res ! 2) ''borrower_rate'' = Some (PyFloat (5 / 100))"
    unfolding two by (simp add: row_b_def)
  moreover from u have "(res ! 2) ''utilization_rate'' = Some (PyInt 0)"
    unfolding two by (simp add: row_b_def utilization_value_def)
  moreover from l2 have "(res ! 2) ''lender_APY'' \<noteq> Some (py_float (supplyRate row_a))"
    by (simp add: row_a_def)
  ultimately show ?thesis
    using r by simp
qed

text \<open>
  C10: for every table, the first record of the result is the initial state stamped with
  timestep 0, with the four rates 0.0; no row of the table enters it.
\<close>

theorem timestep_zero_is_initial_state:
  "\<exists>res. execute (config df) = Inr res \<and> length res = length df + 1 \<and>
     res ! 0 = genesis initial_state 0 1 \<and>
     (res ! 0) ''timestep'' = Some (PyInt 0) \<and>
     (res ! 0) ''lender_APY'' = Some (PyFloat 0) \<and>
     (res ! 0) ''borrower_rate'' = Some (PyFloat 0) \<and>
     (res ! 0) ''utilization_rate'' = Some (PyFloat 0) \<and>
     (res ! 0) ''exchange_rate'' = Some (PyFloat 0)"
  by (simp add: execute_config genesis_def initial_state_def)

section \<open>Reshaping and failures\<close>

lemma to_numeric_total:
  "\<forall>c\<in>set cs. read_cell parse c \<noteq> None \<Longrightarrow>
   to_numeric parse cs = Inr (map (\<lambda>c. the (read_cell parse c)) cs)"
  by (induction cs) auto

lemma to_numeric_fails:
  "\<exists>c\<in>set cs. read_cell parse c = None \<Longrightarrow>
   \<exists>c\<in>set cs. to_numeric parse cs = Inl (ValueError c) \<and> read_cell parse c = None"
proof (induction cs)
  case Nil
  then show ?case by simp
next
  case (Cons a cs)
  show ?case
  proof (cases "read_cell parse a")
    case None
    then show ?thesis by simp
  next
    case (Some x)
    with Cons.prems have "\<exists>c\<in>set cs. read_cell parse c = None" by auto
    then obtain c where "c \<in> set cs" "to_numeric parse cs = Inl (ValueError c)"
      "read_cell parse c = None"
      using Cons.IH by blast
    with Some show ?thesis by auto
  qed
qed

lemma to_numeric_Inl:
  assumes "to_numeric parse cs = Inl e"
  shows "\<exists>c\<in>set cs. e = ValueError c \<and> read_cell parse c = None"
proof (cases "\<forall>c\<in>set cs. read_cell parse c \<noteq> None")
  case True
  from to_numeric_total [OF this] assms show ?thesis by simp
next
  case False
  then have "\<exists>c\<in>set cs. read_cell parse c = None" by simp
  from to_numeric_fails [OF this] assms show ?thesis by auto
qed

lemma to_numeric_Inr:
  assumes "to_numeric parse cs = Inr xs"
  shows "map (read_cell parse) cs = map Some xs"
proof (cases "\<forall>c\<in>set cs. read_cell parse c \<noteq> None")
  case True
  from to_numeric_total [OF this] assms have "xs = map (\<lambda>c. the (read_cell parse c)) cs" by simp
  with True show ?thesis by simp
next
  case False
  then have "\<exists>c\<in>set cs. read_cell parse c = None" by simp
  from to_numeric_fails [OF this] assms show ?thesis by auto
qed

lemma to_numeric_nth:
  assumes "to_numeric parse (map f raw_df) = Inr xs"
  shows "length xs = length raw_df \<and>
         (\<forall>i<length raw_df. read_cell parse (f (raw_df ! i)) = Some (xs ! i))"
proof -
  have m: "map (read_cell parse) (map f raw_df) = map Some xs"
    by (rule to_numeric_Inr [OF assms])
  then have l: "length xs = length raw_df"
    by (metis length_map)
  have "read_cell parse (f (raw_df ! i)) = Some (xs ! i)" if "i < length raw_df" for i
  proof -
    have "map (read_cell parse) (map f raw_df) ! i = map Some xs ! i" by (simp only: m)
    with that l show ?thesis by simp
  qed
  with l show ?thesis by simp
qed

lemma unread_cell:
  "read_cell parse c = None \<Longrightarrow> \<exists>s. c = JString s \<and> s \<noteq> [] \<and> parse s = None"
  by (cases c) (auto split: if_splits)

lemma reshape_cases:
  assumes "reshape parse raw_df = Inr df"
  obtains tb ts br sr er where
    "to_numeric parse (map raw_totalBorrows raw_df) = Inr tb"
    "to_numeric parse (map raw_totalSupply raw_df) = Inr ts"
    "to_numeric parse (map raw_borrowRate raw_df) = Inr br"
    "to_numeric parse (map raw_supplyRate raw_df) = Inr sr"
    "to_numeric parse (map raw_exchangeRate raw_df) = Inr er"
    "df = map (\<lambda>i. \<lparr>index = int i, borrowRate = br ! i, supplyRate = sr ! i,
                       totalBorrows = tb ! i, totalSupply = ts ! i,
                       exchangeRate = er ! i\<rparr>) [0..<length raw_df]"
  using assms unfolding reshape_def
  by (simp split: if_splits sum.splits)

lemma reshape_Inr:
  assumes "reshape parse raw_df = Inr df"
  shows "length df = length raw_df \<and>
     (\<forall>i<length raw_df.
        index (df ! i) = int i \<and>
        read_cell parse (raw_totalBorrows (raw_df ! i)) = Some (totalBorrows (df ! i)) \<and>
        read_cell parse (raw_totalSupply (raw_df ! i)) = Some (totalSupply (df ! i)) \<and>
        read_cell parse (raw_borrowRate (raw_df ! i)) = Some (borrowRate (df ! i)) \<and>
        read_cell parse (raw_supplyRate (raw_df ! i)) = Some (supplyRate (df ! i)) \<and>
        read_cell parse (raw_exchangeRate (raw_df ! i)) = Some (exchangeRate (df ! i)))"
proof -
  from assms obtain tb ts br sr er where
    tb: "to_numeric parse (map raw_totalBorrows raw_df) = Inr tb" and
    ts: "to_numeric parse (map raw_totalSupply raw_df) = Inr ts" and
    br: "to_numeric parse (map raw_borrowRate raw_df) = Inr br" and
    sr: "to_numeric parse (map raw_supplyRate raw_df) = Inr sr" and
    er: "to_numeric parse (map raw_exchangeRate raw_df) = Inr er" and
    df: "df = map (\<lambda>i. \<lparr>index = int i, borrowRate = br ! i, supplyRate = sr ! i,
                       totalBorrows = tb ! i, totalSupply = ts ! i,
                       exchangeRate = er ! i\<rparr>) [0..<length raw_df]"
    by (rule reshape_cases)
  show ?thesis
    using to_numeric_nth [OF tb] to_numeric_nth [OF ts] to_numeric_nth [OF br]
      to_numeric_nth [OF sr] to_numeric_nth [OF er]
    by (simp add: df)
qed

lemma reshape_Inl:
  assumes "reshape parse raw_df = Inl e" and "raw_df \<noteq> []"
  shows "\<exists>s. e = ValueError (JString s) \<and> s \<noteq> [] \<and> parse s = None"
proof -
  have "\<exists>f. to_numeric parse (map f raw_df) = Inl e"
    using assms unfolding reshape_def
    by (simp split: if_splits sum.splits) blast+
  then obtain f where "to_numeric parse (map f raw_df) = Inl e" ..
  from to_numeric_Inl [OF this] obtain c where "e = ValueError c" "read_cell parse c = None"
    by blast
  with unread_cell [of parse c] show ?thesis by blast
qed

lemma reshape_total:
  assumes "raw_df \<noteq> []"
    and "\<forall>r\<in>set raw_df.
           read_cell parse (raw_totalBorrows r) \<noteq> None \<and>
           read_cell parse (raw_totalSupply r) \<noteq> None \<and>
           read_cell parse (raw_borrowRate r) \<noteq> None \<and>
           read_cell parse (raw_supplyRate r) \<noteq> None \<and>
           read_cell parse (raw_exchangeRate r) \<noteq> None"
  shows "\<exists>df. reshape parse raw_df = Inr df"
proof -
  have col: "to_numeric parse (map f raw_df) =
        Inr (map (\<lambda>c. the (read_cell parse c)) (map f raw_df))"
    if "\<forall>r\<in>set raw_df. read_cell parse (f r) \<noteq> None" for f
    using that by (intro to_numeric_total) simp
  have "to_numeric parse (map raw_totalBorrows raw_df) =
          Inr (map (\<lambda>c. the (read_cell parse c)) (map raw_totalBorrows raw_df))"
    using assms(2) by (intro col) simp
  moreover have "to_numeric parse (map raw_totalSupply raw_df) =
          Inr (map (\<lambda>c. the (read_cell parse c)) (map raw_totalSupply raw_df))"
    using assms(2) by (intro col) simp
  moreover have "to_numeric parse (map raw_borrowRate raw_df) =
          Inr (map (\<lambda>c. the (read_cell parse c)) (map raw_borrowRate raw_df))"
    using assms(2) by (intro col) simp
  moreover have "to_numeric parse (map raw_supplyRate raw_df) =
          Inr (map (\<lambda>c. the (read_cell parse c)) (map raw_supplyRate raw_df))"
    using assms(2) by (intro col) simp
  moreover have "to_numeric parse (map raw_exchangeRate raw_df) =
          Inr (map (\<lambda>c. the (read_cell parse c)) (map raw_exchangeRate raw_df))"
    using assms(2) by (intro col) simp
  ultimately show ?thesis
    using assms(1) by (simp add: reshape_def)
qed

lemma reshape_fails:
  assumes "\<exists>r\<in>set raw_df.
           read_cell parse (raw_totalBorrows r) = None \<or>
           read_cell parse (raw_totalSupply r) = None \<or>
           read_cell parse (raw_borrowRate r) = None \<or>
           read_cell parse (raw_supplyRate r) = None \<or>
           read_cell parse (raw_exchangeRate r) = None"
  shows "\<exists>s. reshape parse raw_df = Inl (ValueError (JString s)) \<and> s \<noteq> [] \<and> parse s = None"
proof -
  from assms have ne: "raw_df \<noteq> []" by auto
  have "\<not> (\<exists>df. reshape parse raw_df = Inr df)"
  proof
    assume "\<exists>df. reshape parse raw_df = Inr df"
    then obtain df where d: "reshape parse raw_df = Inr df" ..
    from assms obtain r where r: "r \<in> set raw_df" and
      n: "read_cell parse (raw_totalBorrows r) = None \<or>
          read_cell parse (raw_totalSupply r) = None \<or>
          read_cell parse (raw_borrowRate r) = None \<or>
          read_cell parse (raw_supplyRate r) = None \<or>
          read_cell parse (raw_exchangeRate r) = None" by blast
    from r obtain i where i: "i < length raw_df" "raw_df ! i = r"
      by (auto simp add: in_set_conv_nth)
    with reshape_Inr [OF d] n show False by auto
  qed
  then obtain e where e: "reshape parse raw_df = Inl e"
    by (cases "reshape parse raw_df") auto
  with reshape_Inl [OF e ne] show ?thesis by auto
qed

lemma reshape_raw_a:
  "reshape demo_parse [raw_a] =
     Inr [\<lparr>index = 0, borrowRate = Num (1 / 2), supplyRate = Num (1 / 2),
           totalBorrows = Num 30, totalSupply = Num 0, exchangeRate = Num (1 / 2)\<rparr>]"
  by (simp add: reshape_def demo_parse_def raw_a_def)

text \<open>
  C6, as stated: a value of the five columns that is not numeric makes the conversion
  raise, and nothing is substituted for it. The market \<open>raw_missing\<close> has the empty string
  as its supply rate and null as its exchange rate, neither of them a number (the reading
  \<open>demo_parse\<close> rejects the empty string); the reshape step returns, with NaN in both
  cells.
\<close>

theorem reshape_missing_cell_counterexample:
  "demo_parse [] = None \<and>
   raw_supplyRate raw_missing = JString [] \<and>
   raw_exchangeRate raw_missing = JNull \<and>
   reshape demo_parse [raw_missing] =
     Inr [\<lparr>index = 0, borrowRate = Num (1 / 2), supplyRate = NaN,
           totalBorrows = Num 30, totalSupply = Num 0, exchangeRate = NaN\<rparr>]"
  by (simp add: reshape_def demo_parse_def raw_missing_def)

text \<open>
  C6, amended: the reshape step converts the five columns \<^verbatim>\<open>totalBorrows\<close>,
  \<^verbatim>\<open>totalSupply\<close>, \<^verbatim>\<open>borrowRate\<close>, \<^verbatim>\<open>supplyRate\<close> and \<^verbatim>\<open>exchangeRate\<close> with
  \<^verbatim>\<open>pd.to_numeric\<close> and its default \<^verbatim>\<open>errors='raise'\<close>. A missing cell, null or the empty
  string, does not raise and becomes NaN. When a cell of one of the five columns is a
  string the conversion cannot read, the step raises the uncaught conversion error for
  such a string and substitutes nothing. When the step returns, every cell of the five
  columns is what the conversion reads from the raw cell, and on a non-empty table whose
  cells can all be read it returns.
\<close>

theorem reshape_coerces_five_columns:
  "(reshape parse raw_df = Inr df \<longrightarrow>
      length df = length raw_df \<and>
      (\<forall>i<length raw_df.
         index (df ! i) = int i \<and>
         read_cell parse (raw_totalBorrows (raw_df ! i)) = Some (totalBorrows (df ! i)) \<and>
         read_cell parse (raw_totalSupply (raw_df ! i)) = Some (totalSupply (df ! i)) \<and>
         read_cell parse (raw_borrowRate (raw_df ! i)) = Some (borrowRate (df ! i)) \<and>
         read_cell parse (raw_supplyRate (raw_df ! i)) = Some (supplyRate (df ! i)) \<and>
         read_cell parse (raw_exchangeRate (raw_df ! i)) = Some (exchangeRate (df ! i)))) \<and>
   ((\<exists>r\<in>set raw_df.
        read_cell parse (raw_totalBorrows r) = None \<or>
        read_cell parse (raw_totalSupply r) = None \<or>
        read_cell parse (raw_borrowRate r) = None \<or>
        read_cell parse (raw_supplyRate r) = None \<or>
        read_cell parse (raw_exchangeRate r) = None) \<longrightarrow>
      (\<exists>s. reshape parse raw_df = Inl (ValueError (JString s)) \<and> s \<noteq> [] \<and> parse s = None)) \<and>
   (raw_df \<noteq> [] \<and>
    (\<forall>r\<in>set raw_df.
        read_cell parse (raw_totalBorrows r) \<noteq> None \<and>
        read_cell parse (raw_totalSupply r) \<noteq> None \<and>
        read_cell parse (raw_borrowRate r) \<noteq> None \<and>
        read_cell parse (raw_supplyRate r) \<noteq> None \<and>
        read_cell parse (raw_exchangeRate r) \<noteq> None) \<longrightarrow>
      (\<exists>df'. reshape parse raw_df = Inr df')) \<and>
   read_cell parse JNull = Some NaN \<and>
   read_cell parse (JString []) = Some NaN \<and>
   (s \<noteq> [] \<longrightarrow> read_cell parse (JString s) = parse s)"
  using reshape_Inr [of parse raw_df df] reshape_fails [of raw_df parse]
    reshape_total [of raw_df parse]
  by simp

theorem reshape_coerces_five_columns_witness:
  "reshape demo_parse [raw_a] =
     Inr [\<lparr>index = 0, borrowRate = Num (1 / 2), supplyRate = Num (1 / 2),
           totalBorrows = Num 30, totalSupply = Num 0, exchangeRate = Num (1 / 2)\<rparr>] \<and>
   read_cell demo_parse (raw_totalSupply ([raw_a] ! 0)) = Some (Num 0) \<and>
   read_cell demo_parse (raw_supplyRate raw_bad) = None \<and>
   (\<exists>s. reshape demo_parse [raw_a, raw_bad] = Inl (ValueError (JString s)) \<and>
        s \<noteq> [] \<and> demo_parse s = None) \<and>
   (\<exists>df'. reshape demo_parse [raw_a] = Inr df') \<and>
   read_cell demo_parse (JString ''30'') = Some (Num 30)"
proof -
  let ?row = "\<lparr>index = 0, borrowRate = Num (1 / 2), supplyRate = Num (1 / 2),
           totalBorrows = Num 30, totalSupply = Num 0, exchangeRate = Num (1 / 2)\<rparr>"
  note t1 = reshape_coerces_five_columns [of demo_parse "[raw_a]" "[?row]" "''30''"]
  note t2 = reshape_coerces_five_columns [of demo_parse "[raw_a, raw_bad]" "[]" "''30''"]
  have bad: "read_cell demo_parse (raw_supplyRate raw_bad) = None"
    by (simp add: demo_parse_def raw_bad_def)
  have good: "\<forall>r\<in>set [raw_a].
        read_cell demo_parse (raw_totalBorrows r) \<noteq> None \<and>
        read_cell demo_parse (raw_totalSupply r) \<noteq> None \<and>
        read_cell demo_parse (raw_borrowRate r) \<noteq> None \<and>
        read_cell demo_parse (raw_supplyRate r) \<noteq> None \<and>
        read_cell demo_parse (raw_exchangeRate r) \<noteq> None"
    by (simp add: demo_parse_def raw_a_def)
  have a: "read_cell demo_parse (raw_totalSupply ([raw_a] ! 0)) = Some (Num 0)"
    using t1 reshape_raw_a by simp
  have b: "\<exists>s. reshape demo_parse [raw_a, raw_bad] = Inl (ValueError (JString s)) \<and>
        s \<noteq> [] \<and> demo_parse s = None"
    using t2 bad by simp
  have c: "\<exists>df'. reshape demo_parse [raw_a] = Inr df'"
    using t1 good by blast
  have d: "read_cell demo_parse (JString ''30'') = Some (Num 30)"
    using t1 by (simp add: demo_parse_def)
  from a b c d bad reshape_raw_a show ?thesis by blast
qed

text \<open>
  C5: a failure of the request or of the decoding, a conversion error of the reshape step,
  an empty list of markets and a missing key in the policy all come out of the program
  as they were raised. The one handler is for the division: on a zero divisor the
  utilization is the int 0 and the policy returns.
\<close>

theorem zero_division_only_guard:
  "main parse (Inl e) = Inl e \<and>
   (reshape parse raw_df = Inl e \<longrightarrow> main parse (Inr raw_df) = Inl e) \<and>
   main parse (Inr []) = Inl (AttributeError ''totalBorrows'') \<and>
   (ts_data_of ps prev = Inl e \<longrightarrow> p_rates ps sub_step sH prev = Inl e) \<and>
   (truediv a b = Inl ZeroDivisionError \<longrightarrow> utilization_of a b = Inr (PyInt 0)) \<and>
   (ts_data_of ps prev = Inr row \<and> totalSupply row = Num 0 \<longrightarrow>
      (\<exists>out. p_rates ps sub_step sH prev = Inr out \<and>
         out ''utilization_rate'' = Some (PyInt 0)))"
proof -
  have "ts_data_of ps prev = Inr row \<and> totalSupply row = Num 0 \<longrightarrow>
      (\<exists>out. p_rates ps sub_step sH prev = Inr out \<and>
         out ''utilization_rate'' = Some (PyInt 0))"
    by (auto simp add: p_rates_row utilization_value_def)
  moreover have "ts_data_of ps prev = Inl e \<longrightarrow> p_rates ps sub_step sH prev = Inl e"
    by (simp add: p_rates_def)
  moreover have "truediv a b = Inl ZeroDivisionError \<longrightarrow> utilization_of a b = Inr (PyInt 0)"
    by (simp add: utilization_of_def to_numeric_scalar_def)
  moreover have "main parse (Inr []) = Inl (AttributeError ''totalBorrows'')"
    by (simp add: main_def reshape_def)
  ultimately show ?thesis
    by (simp add: main_def)
qed

theorem zero_division_only_guard_witness:
  "main demo_parse (Inl (RequestError ''timeout'')) = Inl (RequestError ''timeout'') \<and>
   reshape demo_parse [raw_bad] = Inl (ValueError (JString ''n/a'')) \<and>
   main demo_parse (Inr [raw_bad]) = Inl (ValueError (JString ''n/a'')) \<and>
   ts_data_of demo_params Map.empty = Inl (KeyError (PyStr ''timestep'')) \<and>
   p_rates demo_params 1 [] Map.empty = Inl (KeyError (PyStr ''timestep'')) \<and>
   truediv (Num 7) (Num 0) = Inl ZeroDivisionError \<and>
   utilization_of (Num 7) (Num 0) = Inr (PyInt 0) \<and>
   truediv NaN (Num 0) = Inl ZeroDivisionError \<and>
   utilization_of NaN (Num 0) = Inr (PyInt 0) \<and>
   ts_data_of demo_params [''timestep'' \<mapsto> PyInt 1] = Inr row_b \<and> totalSupply row_b = Num 0 \<and>
   (\<exists>out. p_rates demo_params 1 [] [''timestep'' \<mapsto> PyInt 1] = Inr out \<and>
       out ''utilization_rate'' = Some (PyInt 0))"
proof -
  have bad: "reshape demo_parse [raw_bad] = Inl (ValueError (JString ''n/a''))"
    by (simp add: reshape_def demo_parse_def raw_bad_def)
  have nots: "ts_data_of demo_params Map.empty = Inl (KeyError (PyStr ''timestep''))"
    by (simp add: ts_data_of_def)
  have z: "truediv (Num 7) (Num 0) = Inl ZeroDivisionError"
    by (simp add: truediv_def)
  have zn: "truediv NaN (Num 0) = Inl ZeroDivisionError"
    by (simp add: truediv_def)
  have s0: "totalSupply row_b = Num 0"
    by (simp add: row_b_def)
  note t1 = zero_division_only_guard [of demo_parse "RequestError ''timeout''" "[raw_bad]"
      demo_params Map.empty 1 "[]" "Num 7" "Num 0" row_b]
  note t2 = zero_division_only_guard [of demo_parse "ValueError (JString ''n/a'')" "[raw_bad]"
      demo_params "[''timestep'' \<mapsto> PyInt 1]" 1 "[]" NaN "Num 0" row_b]
  note t3 = zero_division_only_guard [of demo_parse "KeyError (PyStr ''timestep'')" "[raw_a]"
      demo_params Map.empty 1 "[]" "Num 7" "Num 0" row_b]
  have a: "main demo_parse (Inl (RequestError ''timeout'')) = Inl (RequestError ''timeout'')"
    using t1 by blast
  have b: "main demo_parse (Inr [raw_bad]) = Inl (ValueError (JString ''n/a''))"
    using t2 bad by blast
  have c: "p_rates demo_params 1 [] Map.empty = Inl (KeyError (PyStr ''timestep''))"
    using t3 nots by blast
  have d: "utilization_of (Num 7) (Num 0) = Inr (PyInt 0)"
    using t1 z by blast
  have dn: "utilization_of NaN (Num 0) = Inr (PyInt 0)"
    using t2 zn by blast
  have e: "\<exists>out. p_rates demo_params 1 [] [''timestep'' \<mapsto> PyInt 1] = Inr out \<and>
       out ''utilization_rate'' = Some (PyInt 0)"
    using t2 demo_ts1 s0 by blast
  from a b c d dn e bad nots z zn s0 demo_ts1 show ?thesis by blast
qed

section \<open>The live chart\<close>

lemma chart_loop_events:
  "\<forall>i\<in>set is. i < length result \<Longrightarrow>
   chart_loop result is events =
     Inr (events @ concat (map (\<lambda>i. [AddRows (result ! i), Sleep (5 / 100)]) is))"
  by (induction "is" arbitrary: events) (simp_all add: iloc_def)

text \<open>
  C7: when the run button was pressed, the loop appends every row of the result to the
  chart once, in the order of the table, and sleeps 0.05 seconds after each row.
\<close>

theorem live_chart_appends_each_row_once:
  assumes "run_simulation"
  shows "live_chart run_simulation result =
           Inr (concat (map (\<lambda>row. [AddRows row, Sleep (5 / 100)]) result))"
proof -
  have "map (\<lambda>i. [AddRows (result ! i), Sleep (5 / 100)]) [0..<length result] =
        map (\<lambda>row. [AddRows row, Sleep (5 / 100)]) (map ((!) result) [0..<length result])"
    by simp
  also have "\<dots> = map (\<lambda>row. [AddRows row, Sleep (5 / 100)]) result"
    by (simp only: map_nth)
  finally show ?thesis
    using assms by (simp add: live_chart_def chart_loop_events)
qed

theorem live_chart_appends_each_row_once_witness:
  "live_chart True [initial_state, Map.empty] =
     Inr [AddRows initial_state, Sleep (5 / 100), AddRows Map.empty, Sleep (5 / 100)]"
  using live_chart_appends_each_row_once [of True "[initial_state, Map.empty]"]
  by simp

end
